theory Spec2Isabelle
  imports Complex_Main "HOL-Library.AList" "HOL-Library.Sublist"
begin

section \<open>Python values and builtins used by the relay\<close>

text \<open>
  The relay is \<^verbatim>\<open>src/infra/freepbx-ami-relay.py\<close>. A Python \<^verbatim>\<open>str\<close> is modelled as a
  \<open>string\<close> whose characters are the code points of the text (code points below 256).
  The reading of \<^verbatim>\<open>time.time()\<close> in the sweep and the modification times of files are
  real numbers of seconds.
\<close>

datatype exn =
    OSError string
  | CalledProcessError string
  | LookupError string
  | AttributeError string
  | ValueError string

text \<open>\<^verbatim>\<open>str(e)\<close> of a caught exception.\<close>

fun str_exn :: "exn \<Rightarrow> string" where
  "str_exn (OSError m) = m"
| "str_exn (CalledProcessError m) = m"
| "str_exn (LookupError m) = m"
| "str_exn (AttributeError m) = m"
| "str_exn (ValueError m) = m"

definition LF :: char where
  "LF = CHR 0x0A"

text \<open>\<^verbatim>\<open>str.isspace\<close> on the code points below 256: TAB, LF, VT, FF, CR, FS, GS, RS, US,
  SPACE, NEL and NBSP.\<close>

definition py_isspace :: "char \<Rightarrow> bool" where
  "py_isspace c =
     (let n = (of_char c :: nat)
      in (9 \<le> n \<and> n \<le> 13) \<or> (28 \<le> n \<and> n \<le> 32) \<or> n = 133 \<or> n = 160)"

text \<open>\<^verbatim>\<open>s.strip()\<close>: leading and trailing whitespace removed.\<close>

definition strip :: "string \<Rightarrow> string" where
  "strip s = rev (dropWhile py_isspace (rev (dropWhile py_isspace s)))"

text \<open>\<^verbatim>\<open>s.startswith(p)\<close>.\<close>

definition startswith :: "string \<Rightarrow> string \<Rightarrow> bool" where
  "startswith s p = prefix p s"

definition digit_char :: "nat \<Rightarrow> char" where
  "digit_char d = ''0123456789'' ! d"

text \<open>\<^verbatim>\<open>str(n)\<close> of a Python int: decimal digits, with a minus sign when negative.\<close>

fun str_nat :: "nat \<Rightarrow> string" where
  "str_nat n =
     (if n < 10 then [digit_char n]
      else str_nat (n div 10) @ [digit_char (n mod 10)])"

declare str_nat.simps [simp del]

definition str_int :: "int \<Rightarrow> string" where
  "str_int i = (if i < 0 then ''-'' @ str_nat (nat (- i)) else str_nat (nat i))"

text \<open>
  A float is given by the text Python prints for it (\<^verbatim>\<open>repr\<close>, from which the float can
  be read back); that text is never blank.
\<close>

typedef float_text = "{s :: string. strip s \<noteq> []}"
proof
  show "''0.0'' \<in> {s :: string. strip s \<noteq> []}"
    by (simp add: strip_def py_isspace_def)
qed

text \<open>The values \<^verbatim>\<open>json.loads\<close> can return.\<close>

datatype py_value =
    PNone
  | PBool bool
  | PInt int
  | PFloat float_text
  | PStr string
  | PList "py_value list"
  | PDict "(string \<times> py_value) list"

text \<open>
  \<^verbatim>\<open>str(v)\<close>. A list is printed between brackets and a dict between braces; the text
  between them (the \<^verbatim>\<open>repr\<close> of the items) is taken as the parameter \<open>r\<close>.
\<close>

fun py_str :: "(py_value \<Rightarrow> string) \<Rightarrow> py_value \<Rightarrow> string" where
  "py_str r PNone = ''None''"
| "py_str r (PBool b) = (if b then ''True'' else ''False'')"
| "py_str r (PInt i) = str_int i"
| "py_str r (PStr s) = s"
| "py_str r (PFloat t) = Rep_float_text t"
| "py_str r (PList xs) = ''['' @ r (PList xs) @ '']''"
| "py_str r (PDict kv) = ''{'' @ r (PDict kv) @ ''}''"

text \<open>\<^verbatim>\<open>d.get(k, dflt)\<close>.\<close>

definition dict_get :: "(string \<times> py_value) list \<Rightarrow> string \<Rightarrow> py_value \<Rightarrow> py_value" where
  "dict_get kv k dflt = (case map_of kv k of None \<Rightarrow> dflt | Some v \<Rightarrow> v)"

section \<open>Configuration, file system and environment\<close>

text \<open>The module-level settings read from the process environment (lines 31--37).\<close>

record config =
  RELAY_TOKEN :: string
  TRUNK :: string
  CALLER_ID :: string

definition SPOOL_DIR :: string where
  "SPOOL_DIR = ''/var/spool/asterisk/outgoing''"

definition SOUNDS_DIR :: string where
  "SOUNDS_DIR = ''/var/lib/asterisk/sounds/custom''"

definition MAX_SOUND_AGE_SECS :: real where
  "MAX_SOUND_AGE_SECS = 3600"

text \<open>\<^verbatim>\<open>os.path.join(d, f)\<close> for a file name \<open>f\<close> that is not absolute.\<close>

definition path_join :: "string \<Rightarrow> string \<Rightarrow> string" where
  "path_join d f = d @ ''/'' @ f"

text \<open>
  A directory entry. Each of the two directories is a table from file names to entries;
  \<^verbatim>\<open>os.path.join(DIR, name)\<close> addresses the entry \<open>name\<close> of the table of \<open>DIR\<close>.
\<close>

record node =
  regular :: bool
  mtime :: real
  owner :: string
  data :: string

type_synonym dir = "(string \<times> node) list"

text \<open>
  The state a request acts on: the audio directory, the pickup directory, every state of
  the pickup directory that a scan by the telephony engine could have observed so far
  (oldest first), and the external programs run so far (their argument vectors).
\<close>

record state =
  sounds :: dir
  spool :: dir
  spool_seen :: "dir list"
  execs :: "string list list"

text \<open>
  The outcomes of the system and library calls of one request: the clock readings, and for
  every call that can raise, the exception it raises (\<open>None\<close>: it succeeds). The field
  \<open>clock_ms\<close> is the integer that \<^verbatim>\<open>int(time.time() * 1000)\<close> yields at line 70; the
  double-precision product behind it is not modelled.
\<close>

record env =
  clock_ms :: int
  clock_sweep :: real
  fs_clock :: real
  proc_user :: string
  py_repr :: "py_value \<Rightarrow> string"
  makedirs_exn :: "exn option"
  flite_exn :: "exn option"
  flite_out :: "string option"
  sox_exn :: "exn option"
  sox_out :: "string option"
  remove_raw_exn :: "exn option"
  chown_exn :: "string \<Rightarrow> exn option"
  open_exn :: "exn option"
  write_exn :: "(nat \<times> exn) option"
  rename_exn :: "exn option"
  listdir_exn :: "exn option"
  getmtime_exn :: "string \<Rightarrow> exn option"
  sweep_remove_exn :: "string \<Rightarrow> exn option"

text \<open>Every change of the pickup directory is recorded as a state the engine can observe.\<close>

definition set_spool :: "dir \<Rightarrow> state \<Rightarrow> state" where
  "set_spool d st = st\<lparr>spool := d, spool_seen := spool_seen st @ [d]\<rparr>"

text \<open>The pickup-directory states that appeared between \<open>st\<close> and a later state \<open>st'\<close>.\<close>

definition new_seen :: "state \<Rightarrow> state \<Rightarrow> dir list" where
  "new_seen st st' = drop (length (spool_seen st)) (spool_seen st')"

definition file_data :: "dir \<Rightarrow> string \<Rightarrow> string option" where
  "file_data d f = map_option data (map_of d f)"

text \<open>A file created or truncated by a program or by \<^verbatim>\<open>open(path, "w")\<close>.\<close>

definition put_file :: "env \<Rightarrow> string \<Rightarrow> string \<Rightarrow> dir \<Rightarrow> dir" where
  "put_file env f bytes d =
     AList.update f
       \<lparr>regular = True, mtime = fs_clock env,
        owner = (case map_of d f of None \<Rightarrow> proc_user env | Some n \<Rightarrow> owner n),
        data = bytes\<rparr> d"

text \<open>\<^verbatim>\<open>os.path.isfile\<close>: false for a missing entry, never raises.\<close>

definition isfile :: "dir \<Rightarrow> string \<Rightarrow> bool" where
  "isfile d f = (case map_of d f of None \<Rightarrow> False | Some n \<Rightarrow> regular n)"

definition getmtime :: "env \<Rightarrow> dir \<Rightarrow> string \<Rightarrow> exn + real" where
  "getmtime env d f =
     (case getmtime_exn env f of
        Some e \<Rightarrow> Inl e
      | None \<Rightarrow>
          (case map_of d f of
             None \<Rightarrow> Inl (OSError ''No such file or directory'')
           | Some n \<Rightarrow> Inr (mtime n)))"

text \<open>\<^verbatim>\<open>os.remove\<close>; \<open>x\<close> is the exception the system raises for this call, if any.\<close>

definition os_remove :: "exn option \<Rightarrow> string \<Rightarrow> dir \<Rightarrow> exn + dir" where
  "os_remove x f d =
     (case x of
        Some e \<Rightarrow> Inl e
      | None \<Rightarrow>
          (case map_of d f of
             None \<Rightarrow> Inl (OSError ''No such file or directory'')
           | Some n \<Rightarrow>
               if regular n then Inr (AList.delete f d)
               else Inl (OSError ''Is a directory'')))"

text \<open>
  \<^verbatim>\<open>try: shutil.chown(path, "asterisk", "asterisk") except Exception: pass\<close>
  (lines 60--63 and 91--94).
\<close>

definition chown_quiet :: "env \<Rightarrow> string \<Rightarrow> string \<Rightarrow> dir \<Rightarrow> dir" where
  "chown_quiet env p f d =
     (case chown_exn env p of
        Some e \<Rightarrow> d
      | None \<Rightarrow>
          (case map_of d f of
             None \<Rightarrow> d
           | Some n \<Rightarrow> AList.update f (n\<lparr>owner := ''asterisk''\<rparr>) d))"

section \<open>Speech synthesis: \<^verbatim>\<open>generate_tts\<close>\<close>

definition flite_cmd :: "string \<Rightarrow> string \<Rightarrow> string list" where
  "flite_cmd message raw_path = [''flite'', ''-t'', message, ''-o'', raw_path]"

definition sox_cmd :: "string \<Rightarrow> string \<Rightarrow> string list" where
  "sox_cmd raw_path final_path =
     [''sox'', raw_path, ''-r'', ''8000'', ''-c'', ''1'', ''-e'', ''signed-integer'',
      ''-b'', ''16'', final_path]"

text \<open>
  \<^verbatim>\<open>subprocess.run(cmd, check=True, capture_output=True)\<close>: the program is run, writes
  its output file if it gets that far, and a failure is raised.
\<close>

definition run_program ::
  "env \<Rightarrow> string list \<Rightarrow> string \<Rightarrow> string option \<Rightarrow> state \<Rightarrow> state" where
  "run_program env cmd out_name out st =
     (let st1 = st\<lparr>execs := execs st @ [cmd]\<rparr>
      in case out of
           None \<Rightarrow> st1
         | Some bytes \<Rightarrow> st1\<lparr>sounds := put_file env out_name bytes (sounds st1)\<rparr>)"

definition generate_tts :: "env \<Rightarrow> string \<Rightarrow> string \<Rightarrow> state \<Rightarrow> (exn + string) \<times> state" where
  "generate_tts env message uid st =
     (let sound_name = ''akira-alert-'' @ uid;
          raw_name = sound_name @ ''-raw.wav'';
          final_name = sound_name @ ''.wav'';
          raw_path = path_join SOUNDS_DIR raw_name;
          final_path = path_join SOUNDS_DIR final_name
      in case makedirs_exn env of
           Some e \<Rightarrow> (Inl e, st)
         | None \<Rightarrow>
             (let st1 = run_program env (flite_cmd message raw_path) raw_name (flite_out env) st
              in case flite_exn env of
                   Some e \<Rightarrow> (Inl e, st1)
                 | None \<Rightarrow>
                     (let st2 = run_program env (sox_cmd raw_path final_path) final_name
                                  (sox_out env) st1
                      in case sox_exn env of
                           Some e \<Rightarrow> (Inl e, st2)
                         | None \<Rightarrow>
                             (case os_remove (remove_raw_exn env) raw_name (sounds st2) of
                                Inl e \<Rightarrow> (Inl e, st2)
                              | Inr d \<Rightarrow>
                                  (Inr sound_name,
                                   st2\<lparr>sounds := chown_quiet env final_path final_name d\<rparr>)))))"

section \<open>Retention sweep: \<^verbatim>\<open>_cleanup_old_sounds\<close>\<close>

text \<open>
  The body of the \<^verbatim>\<open>for\<close> loop of lines 108--112 over the listing; an exception stops
  the loop and leaves the directory as it is at that point.
\<close>

fun sweep_loop :: "env \<Rightarrow> real \<Rightarrow> string list \<Rightarrow> dir \<Rightarrow> (exn + unit) \<times> dir" where
  "sweep_loop env now [] d = (Inr (), d)"
| "sweep_loop env now (f # fs) d =
     (if startswith f ''akira-alert-'' then
        (if isfile d f then
           (case getmtime env d f of
              Inl e \<Rightarrow> (Inl e, d)
            | Inr m \<Rightarrow>
                if now - m > MAX_SOUND_AGE_SECS then
                  (case os_remove (sweep_remove_exn env f) f d of
                     Inl e \<Rightarrow> (Inl e, d)
                   | Inr d' \<Rightarrow> sweep_loop env now fs d')
                else sweep_loop env now fs d)
         else sweep_loop env now fs d)
      else sweep_loop env now fs d)"

text \<open>The \<^verbatim>\<open>try\<close> block: \<^verbatim>\<open>os.listdir\<close> and the loop.\<close>

definition cleanup_try :: "env \<Rightarrow> real \<Rightarrow> dir \<Rightarrow> (exn + unit) \<times> dir" where
  "cleanup_try env now d =
     (case listdir_exn env of
        Some e \<Rightarrow> (Inl e, d)
      | None \<Rightarrow> sweep_loop env now (map fst d) d)"

text \<open>\<^verbatim>\<open>except Exception: pass\<close>: whatever the block raised is dropped.\<close>

definition cleanup_old_sounds :: "env \<Rightarrow> state \<Rightarrow> state" where
  "cleanup_old_sounds env st =
     (let now = clock_sweep env
      in case cleanup_try env now (sounds st) of
           (Inl e, d) \<Rightarrow> st\<lparr>sounds := d\<rparr>
         | (Inr u, d) \<Rightarrow> st\<lparr>sounds := d\<rparr>)"

section \<open>Call origination: \<^verbatim>\<open>originate_call\<close>\<close>

text \<open>Line 70: \<^verbatim>\<open>str(int(time.time() * 1000))\<close>, for the integer \<open>ms\<close> that
  \<^verbatim>\<open>int(time.time() * 1000)\<close> yields.\<close>

definition uid_of :: "int \<Rightarrow> string" where
  "uid_of ms = str_int ms"

text \<open>Lines 79--87: the rendered call file.\<close>

definition call_content :: "config \<Rightarrow> string \<Rightarrow> string \<Rightarrow> string" where
  "call_content cfg to sound_name =
     ''Channel: PJSIP/'' @ to @ ''@'' @ TRUNK cfg @ [LF] @
     ''Application: Playback'' @ [LF] @
     ''Data: custom/'' @ sound_name @ [LF] @
     ''MaxRetries: 2'' @ [LF] @
     ''RetryTime: 30'' @ [LF] @
     ''WaitTime: 45'' @ [LF] @
     ''CallerID: '' @ CALLER_ID cfg @ [LF]"

text \<open>A byte written through the open file reaches the file's entry.\<close>

definition append_byte :: "string \<Rightarrow> char \<Rightarrow> dir \<Rightarrow> dir" where
  "append_byte f c d =
     (case map_of d f of
        None \<Rightarrow> d
      | Some n \<Rightarrow> AList.update f (n\<lparr>data := data n @ [c]\<rparr>) d)"

fun write_bytes :: "string \<Rightarrow> string \<Rightarrow> state \<Rightarrow> state" where
  "write_bytes f [] st = st"
| "write_bytes f (c # cs) st = write_bytes f cs (set_spool (append_byte f c (spool st)) st)"

text \<open>
  Lines 88--89, \<^verbatim>\<open>with open(tmp_file, "w") as f: f.write(content)\<close>: the file is created
  empty, then the bytes arrive one after the other. When the write or the close raises
  after \<open>k\<close> bytes, those \<open>k\<close> bytes stay in the file.
\<close>

definition write_tmp :: "env \<Rightarrow> string \<Rightarrow> string \<Rightarrow> state \<Rightarrow> (exn + unit) \<times> state" where
  "write_tmp env f content st =
     (case open_exn env of
        Some e \<Rightarrow> (Inl e, st)
      | None \<Rightarrow>
          (let st1 = set_spool (put_file env f [] (spool st)) st
           in case write_exn env of
                Some (k, e) \<Rightarrow> (Inl e, write_bytes f (take k content) st1)
              | None \<Rightarrow> (Inr (), write_bytes f content st1)))"

text \<open>Line 96, \<^verbatim>\<open>os.rename(tmp_file, call_file)\<close>: one step of the pickup directory.\<close>

definition os_rename :: "env \<Rightarrow> string \<Rightarrow> string \<Rightarrow> state \<Rightarrow> (exn + unit) \<times> state" where
  "os_rename env src dst st =
     (case rename_exn env of
        Some e \<Rightarrow> (Inl e, st)
      | None \<Rightarrow>
          (case map_of (spool st) src of
             None \<Rightarrow> (Inl (OSError ''No such file or directory''), st)
           | Some n \<Rightarrow>
               (Inr (), set_spool (AList.update dst n (AList.delete src (spool st))) st)))"

definition call_name :: "string \<Rightarrow> string" where
  "call_name uid = ''akira-'' @ uid @ ''.call''"

definition originate_call ::
  "config \<Rightarrow> env \<Rightarrow> string \<Rightarrow> string \<Rightarrow> state \<Rightarrow> (exn + (string \<times> string) list) \<times> state" where
  "originate_call cfg env to message st =
     (let uid = uid_of (clock_ms env)
      in case generate_tts env message uid st of
           (Inl e, st1) \<Rightarrow> (Inl e, st1)
         | (Inr sound_name, st1) \<Rightarrow>
             (let call_file = path_join SPOOL_DIR (call_name uid);
                  tmp_file = call_file @ ''.tmp'';
                  tmp_name = call_name uid @ ''.tmp'';
                  content = call_content cfg to sound_name
              in case write_tmp env tmp_name content st1 of
                   (Inl e, st2) \<Rightarrow> (Inl e, st2)
                 | (Inr u, st2) \<Rightarrow>
                     (let st3 = set_spool (chown_quiet env tmp_file tmp_name (spool st2)) st2
                      in case os_rename env tmp_name (call_name uid) st3 of
                           (Inl e, st4) \<Rightarrow> (Inl e, st4)
                         | (Inr u', st4) \<Rightarrow>
                             (Inr [(''status'', ''ok''), (''to'', to), (''sound'', sound_name),
                                   (''call_file'', call_file)],
                              cleanup_old_sounds env st4))))"

section \<open>The HTTP handler: \<^verbatim>\<open>Handler.do_POST\<close>\<close>

text \<open>
  What lines 137--142 make of the request body: \<^verbatim>\<open>int(Content-Length)\<close> raises (outside
  the \<^verbatim>\<open>try\<close>), reading and \<^verbatim>\<open>json.loads\<close> raise (inside it), or a value is parsed.
\<close>

datatype body_read = BadLength exn | BadJson | Parsed py_value

record request =
  req_path :: string
  req_token :: "string option"
  req_body :: body_read

text \<open>
  The handler answers through \<^verbatim>\<open>send_error(code, message)\<close>, the library's error page,
  or through \<^verbatim>\<open>_json(code, data)\<close>, a JSON object; an exception nobody catches leaves
  the handler without an answer. Writing an answer to the socket is taken to succeed.
\<close>

datatype response =
    SendError nat "string option"
  | SendJson nat "(string \<times> string) list"
  | Unhandled exn

text \<open>Lines 151--155: the \<^verbatim>\<open>try\<close> around \<^verbatim>\<open>originate_call\<close>.\<close>

definition respond ::
  "(exn + (string \<times> string) list) \<times> state \<Rightarrow> response \<times> state" where
  "respond r =
     (case r of
        (Inr result, st') \<Rightarrow> (SendJson 200 result, st')
      | (Inl e, st') \<Rightarrow> (SendJson 500 [(''status'', ''error''), (''reason'', str_exn e)], st'))"

definition do_POST :: "config \<Rightarrow> env \<Rightarrow> request \<Rightarrow> state \<Rightarrow> response \<times> state" where
  "do_POST cfg env req st =
     (if req_path req \<noteq> ''/call'' then (SendError 404 None, st)
      else if RELAY_TOKEN cfg = [] then (SendError 500 (Some ''FREEPBX_RELAY_TOKEN not set''), st)
      else if req_token req \<noteq> Some (RELAY_TOKEN cfg) then (SendError 403 (Some ''Forbidden''), st)
      else
        (case req_body req of
           BadLength e \<Rightarrow> (Unhandled e, st)
         | BadJson \<Rightarrow> (SendError 400 (Some ''Invalid JSON''), st)
         | Parsed (PDict kv) \<Rightarrow>
             (let to = strip (py_str (py_repr env) (dict_get kv ''to'' (PStr [])));
                  message = strip (py_str (py_repr env)
                                     (dict_get kv ''message'' (PStr ''Alert from Akira'')))
              in if to = [] then (SendError 400 (Some (''Missing 'to'' @ [CHR 0x27])), st)
                 else respond (originate_call cfg env to message st))
         | Parsed v \<Rightarrow>
             (Unhandled (AttributeError (''object has no attribute 'get'' @ [CHR 0x27])), st)))"

section \<open>Notions of the specification and sample inputs\<close>

text \<open>The error object \<^verbatim>\<open>{"status": "error", "reason": <text>}\<close> sent with status 500.\<close>

definition is_json_error :: "response \<Rightarrow> bool" where
  "is_json_error r =
     (case r of
        SendJson c flds \<Rightarrow>
          c = 500 \<and> map fst flds = [''status'', ''reason''] \<and> map_of flds ''status'' = Some ''error''
      | SendError c m \<Rightarrow> False
      | Unhandled e \<Rightarrow> False)"

definition example_cfg :: config where
  "example_cfg =
     \<lparr>RELAY_TOKEN = ''s3cret'', TRUNK = ''Twilio'', CALLER_ID = ''Akira <+15550000000>''\<rparr>"

definition unset_cfg :: config where
  "unset_cfg = \<lparr>RELAY_TOKEN = [], TRUNK = ''Twilio'', CALLER_ID = ''Akira <+15550000000>''\<rparr>"

text \<open>An environment in which every call succeeds.\<close>

definition calm_env :: env where
  "calm_env =
     \<lparr>clock_ms = 1700000000123, clock_sweep = 1700000001, fs_clock = 1700000000.5,
      proc_user = ''root'', py_repr = (\<lambda>v. ''?''),
      makedirs_exn = None, flite_exn = None, flite_out = Some ''RIFF-raw'',
      sox_exn = None, sox_out = Some ''RIFF-8k'', remove_raw_exn = None,
      chown_exn = (\<lambda>p. None), open_exn = None, write_exn = None, rename_exn = None,
      listdir_exn = None, getmtime_exn = (\<lambda>p. None), sweep_remove_exn = (\<lambda>p. None)\<rparr>"

definition empty_state :: state where
  "empty_state = \<lparr>sounds = [], spool = [], spool_seen = [], execs = []\<rparr>"

definition good_request :: request where
  "good_request =
     \<lparr>req_path = ''/call'', req_token = Some ''s3cret'',
      req_body = Parsed (PDict [(''to'', PStr ''+15551234567''),
                                (''message'', PStr ''Disk full on NAS'')])\<rparr>"

definition wrong_token_request :: request where
  "wrong_token_request = good_request\<lparr>req_token := Some ''guess''\<rparr>"

text \<open>The calm environment, except that removing the raw file is refused.\<close>

definition raw_stuck_env :: env where
  "raw_stuck_env = calm_env\<lparr>remove_raw_exn := Some (OSError ''Permission denied'')\<rparr>"



text \<open>A later request for which line 70 computes the same millisecond count as in the
  calm environment, and one whose audio directory cannot be made.\<close>

definition same_ms_env :: env where
  "same_ms_env = calm_env\<lparr>clock_sweep := 1700000001.5, fs_clock := 1700000000.9\<rparr>"


text \<open>The lines of a text, each ended by a line feed, as the telephony engine reads a call
  file.\<close>

fun split_lines :: "string \<Rightarrow> string \<Rightarrow> string list" where
  "split_lines acc [] = (if acc = [] then [] else [acc])"
| "split_lines acc (c # cs) =
     (if c = LF then acc # split_lines [] cs else split_lines (acc @ [c]) cs)"

definition lines_of :: "string \<Rightarrow> string list" where
  "lines_of s = split_lines [] s"

definition unlines :: "string list \<Rightarrow> string" where
  "unlines ls = concat (map (\<lambda>l. l @ [LF]) ls)"

text \<open>The seven lines of the artifact format of the specification.\<close>

definition call_lines :: "config \<Rightarrow> string \<Rightarrow> string \<Rightarrow> string list" where
  "call_lines cfg to sound_name =
     [''Channel: PJSIP/'' @ to @ ''@'' @ TRUNK cfg,
      ''Application: Playback'',
      ''Data: custom/'' @ sound_name,
      ''MaxRetries: 2'',
      ''RetryTime: 30'',
      ''WaitTime: 45'',
      ''CallerID: '' @ CALLER_ID cfg]"

text \<open>A destination with a line feed inside, which \<^verbatim>\<open>strip\<close> leaves in place.\<close>

definition inject_to :: string where
  "inject_to = ''+15551234567'' @ [LF] @ ''Set: x=y''"

text \<open>Two originations of one process, one after the other, and one with the destination
  above.\<close>

definition first_call :: "(exn + (string \<times> string) list) \<times> state" where
  "first_call = originate_call example_cfg calm_env ''+15551234567'' ''first'' empty_state"

definition second_call :: "(exn + (string \<times> string) list) \<times> state" where
  "second_call =
     originate_call example_cfg same_ms_env ''+15557654321'' ''second'' (snd first_call)"


definition injected_call :: "(exn + (string \<times> string) list) \<times> state" where
  "injected_call = originate_call example_cfg calm_env inject_to ''hi'' empty_state"

text \<open>An audio directory with an expired asset, one exactly at the age limit for the sweep
  clock of the calm environment, a recent one and a file of another name; and one with
  nothing to sweep.\<close>

definition aged_state :: state where
  "aged_state =
     \<lparr>sounds =
        [(''akira-alert-100.wav'',
          \<lparr>regular = True, mtime = 1699990000, owner = ''asterisk'', data = ''old''\<rparr>),
         (''akira-alert-200.wav'',
          \<lparr>regular = True, mtime = 1699996401, owner = ''asterisk'', data = ''edge''\<rparr>),
         (''akira-alert-300.wav'',
          \<lparr>regular = True, mtime = 1700000000, owner = ''asterisk'', data = ''new''\<rparr>),
         (''hold-music.wav'',
          \<lparr>regular = True, mtime = 0, owner = ''asterisk'', data = ''music''\<rparr>)],
      spool = [], spool_seen = [], execs = []\<rparr>"

definition tidy_state :: state where
  "tidy_state =
     \<lparr>sounds =
        [(''akira-alert-300.wav'',
          \<lparr>regular = True, mtime = 1700000000, owner = ''asterisk'', data = ''new''\<rparr>),
         (''hold-music.wav'',
          \<lparr>regular = True, mtime = 0, owner = ''asterisk'', data = ''music''\<rparr>)],
      spool = [], spool_seen = [], execs = []\<rparr>"

section \<open>The handler's checks before origination\<close>

text \<open>
  C2. A POST to \<^verbatim>\<open>/call\<close> whose \<^verbatim>\<open>X-Relay-Token\<close> header is absent or differs from the
  configured, non-empty token is answered with 403, and the state is left exactly as it
  was: no program is run, no file is written in the audio directory, and the pickup
  directory shows no new state.
\<close>

theorem do_POST_bad_token:
  assumes "req_path req = ''/call''"
    and "RELAY_TOKEN cfg \<noteq> []"
    and "req_token req \<noteq> Some (RELAY_TOKEN cfg)"
  shows "do_POST cfg env req st = (SendError 403 (Some ''Forbidden''), st)"
  using assms by (simp add: do_POST_def)

theorem do_POST_bad_token_witness:
  "req_path wrong_token_request = ''/call'' \<and> RELAY_TOKEN example_cfg \<noteq> [] \<and>
   req_token wrong_token_request \<noteq> Some (RELAY_TOKEN example_cfg) \<and>
   do_POST example_cfg calm_env wrong_token_request empty_state =
     (SendError 403 (Some ''Forbidden''), empty_state)"
proof -
  have p: "req_path wrong_token_request = ''/call''"
    by (simp add: wrong_token_request_def good_request_def)
  have t: "RELAY_TOKEN example_cfg \<noteq> []"
    by (simp add: example_cfg_def)
  have m: "req_token wrong_token_request \<noteq> Some (RELAY_TOKEN example_cfg)"
    by (simp add: wrong_token_request_def good_request_def example_cfg_def)
  from do_POST_bad_token [OF p t m] p t m show ?thesis
    by simp
qed

text \<open>
  C6, as the code has it. With the token unset, a POST to \<^verbatim>\<open>/call\<close> is answered with
  status 500 through \<^verbatim>\<open>send_error\<close> and the message \<^verbatim>\<open>FREEPBX_RELAY_TOKEN not set\<close>,
  which is the server's error page and not a JSON object, and the state is unchanged.
  The JSON error object is what every 500 answer sent through \<^verbatim>\<open>_json\<close> carries, that
  is, the failures of the origination itself.
\<close>

theorem do_POST_token_unset:
  assumes "req_path req = ''/call''"
  shows "(RELAY_TOKEN cfg = [] \<longrightarrow>
            do_POST cfg env req st = (SendError 500 (Some ''FREEPBX_RELAY_TOKEN not set''), st)) \<and>
         (fst (do_POST cfg env req st) = SendJson 500 flds \<longrightarrow> is_json_error (SendJson 500 flds))"
proof (intro conjI impI)
  assume "RELAY_TOKEN cfg = []"
  with assms show "do_POST cfg env req st = (SendError 500 (Some ''FREEPBX_RELAY_TOKEN not set''), st)"
    by (simp add: do_POST_def)
next
  assume "fst (do_POST cfg env req st) = SendJson 500 flds"
  then show "is_json_error (SendJson 500 flds)"
    by (auto simp: do_POST_def respond_def is_json_error_def Let_def
             split: if_splits body_read.splits py_value.splits sum.splits prod.splits)
qed

text \<open>The claim as written fails: the answer to a request with the token unset is no JSON object.\<close>

theorem do_POST_token_unset_counterexample:
  "fst (do_POST unset_cfg calm_env good_request empty_state) =
     SendError 500 (Some ''FREEPBX_RELAY_TOKEN not set'') \<and>
   \<not> is_json_error (fst (do_POST unset_cfg calm_env good_request empty_state))"
  by (simp add: do_POST_def unset_cfg_def good_request_def is_json_error_def)

section \<open>Publication of the call file\<close>

lemma set_spool_simps [simp]:
  "spool (set_spool d st) = d"
  "sounds (set_spool d st) = sounds st"
  "execs (set_spool d st) = execs st"
  "spool_seen (set_spool d st) = spool_seen st @ [d]"
  by (simp_all add: set_spool_def)

lemma write_bytes_other [simp]:
  "sounds (write_bytes f cs st) = sounds st"
  "execs (write_bytes f cs st) = execs st"
  by (induction cs arbitrary: st) simp_all

lemma write_bytes_spool:
  "map_of (spool st) f = Some n \<Longrightarrow>
   spool (write_bytes f cs st) = AList.update f (n\<lparr>data := data n @ cs\<rparr>) (spool st)"
proof (induction cs arbitrary: st n)
  case Nil
  then show ?case by (simp add: update_triv)
next
  case (Cons c cs)
  have "map_of (spool (set_spool (append_byte f c (spool st)) st)) f = Some (n\<lparr>data := data n @ [c]\<rparr>)"
    using Cons.prems by (simp add: append_byte_def update_conv')
  from Cons.IH [OF this] show ?case
    using Cons.prems by (simp add: append_byte_def)
qed

lemma append_byte_other: "g \<noteq> f \<Longrightarrow> map_of (append_byte f c d) g = map_of d g"
  by (simp add: append_byte_def update_conv' split: option.splits)

lemma write_bytes_seen:
  "\<exists>tr. spool_seen (write_bytes f cs st) = spool_seen st @ tr \<and>
        (\<forall>sp\<in>set tr. \<forall>g. g \<noteq> f \<longrightarrow> map_of sp g = map_of (spool st) g) \<and>
        (\<forall>g. g \<noteq> f \<longrightarrow> map_of (spool (write_bytes f cs st)) g = map_of (spool st) g)"
proof (induction cs arbitrary: st)
  case Nil
  show ?case by simp
next
  case (Cons c cs)
  let ?d = "append_byte f c (spool st)"
  let ?st1 = "set_spool ?d st"
  from Cons.IH [of ?st1] obtain tr where
    tr: "spool_seen (write_bytes f cs ?st1) = spool_seen ?st1 @ tr"
      "\<forall>sp\<in>set tr. \<forall>g. g \<noteq> f \<longrightarrow> map_of sp g = map_of (spool ?st1) g"
      "\<forall>g. g \<noteq> f \<longrightarrow> map_of (spool (write_bytes f cs ?st1)) g = map_of (spool ?st1) g"
    by blast
  show ?case
    by (rule exI [of _ "?d # tr"]) (use tr in \<open>simp add: append_byte_other\<close>)
qed

lemma put_file_other: "g \<noteq> f \<Longrightarrow> map_of (put_file env f b d) g = map_of d g"
  by (simp add: put_file_def update_conv')

lemma put_file_same: "file_data (put_file env f b d) f = Some b"
  by (simp add: put_file_def file_data_def update_conv')

lemma chown_quiet_other: "g \<noteq> f \<Longrightarrow> map_of (chown_quiet env p f d) g = map_of d g"
  by (simp add: chown_quiet_def update_conv' split: option.splits)

lemma chown_quiet_data: "file_data (chown_quiet env p f d) g = file_data d g"
  by (auto simp: chown_quiet_def file_data_def update_conv' split: option.splits)

lemma write_tmp_seen:
  assumes "write_tmp env f c st = (r, st2)"
  shows "\<exists>tr. spool_seen st2 = spool_seen st @ tr \<and>
        (\<forall>sp\<in>set tr. \<forall>g. g \<noteq> f \<longrightarrow> map_of sp g = map_of (spool st) g) \<and>
        (\<forall>g. g \<noteq> f \<longrightarrow> map_of (spool st2) g = map_of (spool st) g) \<and>
        (r = Inr () \<longrightarrow> file_data (spool st2) f = Some c)"
proof (cases "open_exn env")
  case (Some e)
  with assms show ?thesis by (auto simp: write_tmp_def)
next
  case None
  let ?d = "put_file env f [] (spool st)"
  let ?st1 = "set_spool ?d st"
  obtain n where n: "map_of ?d f = Some n" "data n = []"
    by (simp add: put_file_def update_conv')
  have full: "file_data (spool (write_bytes f c ?st1)) f = Some c"
    using n write_bytes_spool [of ?st1 f n c] by (simp add: file_data_def update_conv')
  have st2: "st2 = write_bytes f (case write_exn env of None \<Rightarrow> c | Some (k, e) \<Rightarrow> take k c) ?st1"
    using assms None by (auto simp: write_tmp_def Let_def split: option.splits)
  have r: "r = Inr () \<Longrightarrow> write_exn env = None"
    using assms None by (auto simp: write_tmp_def Let_def split: option.splits)
  from write_bytes_seen [of f "case write_exn env of None \<Rightarrow> c | Some (k, e) \<Rightarrow> take k c" ?st1]
  obtain tr where
    tr: "spool_seen st2 = spool_seen ?st1 @ tr"
      "\<forall>sp\<in>set tr. \<forall>g. g \<noteq> f \<longrightarrow> map_of sp g = map_of (spool ?st1) g"
      "\<forall>g. g \<noteq> f \<longrightarrow> map_of (spool st2) g = map_of (spool ?st1) g"
    unfolding st2 by blast
  show ?thesis
  proof (rule exI [of _ "?d # tr"], intro conjI)
    show "spool_seen st2 = spool_seen st @ ?d # tr" using tr(1) by simp
    show "\<forall>sp\<in>set (?d # tr). \<forall>g. g \<noteq> f \<longrightarrow> map_of sp g = map_of (spool st) g"
      using tr(2) by (simp add: put_file_other)
    show "\<forall>g. g \<noteq> f \<longrightarrow> map_of (spool st2) g = map_of (spool st) g"
      using tr(3) by (simp add: put_file_other)
    show "r = Inr () \<longrightarrow> file_data (spool st2) f = Some c"
      using r full st2 by auto
  qed
qed


lemma run_program_simps [simp]:
  "spool (run_program env cmd f out st) = spool st"
  "spool_seen (run_program env cmd f out st) = spool_seen st"
  "execs (run_program env cmd f out st) = execs st @ [cmd]"
  by (simp_all add: run_program_def Let_def split: option.splits)

lemma cleanup_other [simp]:
  "spool (cleanup_old_sounds env st) = spool st"
  "spool_seen (cleanup_old_sounds env st) = spool_seen st"
  "execs (cleanup_old_sounds env st) = execs st"
  by (simp_all add: cleanup_old_sounds_def Let_def split: prod.splits sum.splits)

lemma generate_tts_spool:
  assumes "generate_tts env m uid st = (r, st1)"
  shows "spool st1 = spool st \<and> spool_seen st1 = spool_seen st"
  using assms
  by (auto simp: generate_tts_def Let_def split: option.splits sum.splits)

lemma generate_tts_name:
  assumes "generate_tts env m uid st = (Inr s, st1)"
  shows "s = ''akira-alert-'' @ uid"
  using assms
  by (auto simp: generate_tts_def Let_def split: option.splits sum.splits)

lemma os_rename_fail:
  assumes "os_rename env src dst st = (Inl e, st4)"
  shows "st4 = st"
  using assms by (auto simp: os_rename_def split: option.splits)

lemma os_rename_ok:
  assumes "os_rename env src dst st = (Inr u, st4)"
  shows "\<exists>n. map_of (spool st) src = Some n \<and>
             st4 = set_spool (AList.update dst n (AList.delete src (spool st))) st"
  using assms by (auto simp: os_rename_def split: option.splits)

lemma originate_call_trace:
  assumes run: "originate_call cfg env to message st = (r, st')"
  shows "\<exists>pre.
           (\<forall>sp\<in>set pre. map_of sp (call_name (uid_of (clock_ms env))) =
                           map_of (spool st) (call_name (uid_of (clock_ms env)))) \<and>
           (case r of
              Inl e \<Rightarrow>
                new_seen st st' = pre \<and>
                map_of (spool st') (call_name (uid_of (clock_ms env))) =
                  map_of (spool st) (call_name (uid_of (clock_ms env)))
            | Inr res \<Rightarrow>
                res = [(''status'', ''ok''), (''to'', to),
                       (''sound'', ''akira-alert-'' @ uid_of (clock_ms env)),
                       (''call_file'', path_join SPOOL_DIR (call_name (uid_of (clock_ms env))))] \<and>
                new_seen st st' = pre @ [spool st'] \<and> pre \<noteq> [] \<and>
                file_data (last pre) (call_name (uid_of (clock_ms env)) @ ''.tmp'') =
                  Some (call_content cfg to (''akira-alert-'' @ uid_of (clock_ms env))) \<and>
                file_data (spool st') (call_name (uid_of (clock_ms env))) =
                  Some (call_content cfg to (''akira-alert-'' @ uid_of (clock_ms env))))"
proof -
  let ?uid = "uid_of (clock_ms env)"
  let ?final = "call_name ?uid"
  let ?tmp = "?final @ ''.tmp''"
  let ?tmp_file = "path_join SPOOL_DIR ?final @ ''.tmp''"
  have ne: "?final \<noteq> ?tmp" by simp
  obtain r0 st1 where gen: "generate_tts env message ?uid st = (r0, st1)"
    by (cases "generate_tts env message ?uid st")
  from generate_tts_spool [OF gen]
  have st1: "spool st1 = spool st" "spool_seen st1 = spool_seen st" by simp_all
  show ?thesis
  proof (cases r0)
    case (Inl e)
    with run gen have "r = Inl e" "st' = st1"
      by (simp_all add: originate_call_def Let_def)
    with st1 show ?thesis
      by (intro exI [of _ "[]"]) (simp add: new_seen_def)
  next
    case (Inr s)
    with gen generate_tts_name have s: "s = ''akira-alert-'' @ ?uid" by blast
    let ?content = "call_content cfg to s"
    obtain r1 st2 where wt: "write_tmp env ?tmp ?content st1 = (r1, st2)"
      by (cases "write_tmp env ?tmp ?content st1")
    from write_tmp_seen [OF wt] ne st1 obtain tr where
      tr: "spool_seen st2 = spool_seen st @ tr"
        "\<forall>sp\<in>set tr. map_of sp ?final = map_of (spool st) ?final"
        "map_of (spool st2) ?final = map_of (spool st) ?final"
        "r1 = Inr () \<longrightarrow> file_data (spool st2) ?tmp = Some ?content"
      by auto
    show ?thesis
    proof (cases r1)
      case (Inl e)
      with run gen Inr wt have "r = Inl e" "st' = st2"
        by (simp_all add: originate_call_def Let_def)
      with tr show ?thesis
        by (intro exI [of _ tr]) (simp add: new_seen_def)
    next
      case r1: (Inr u)
      let ?d3 = "chown_quiet env ?tmp_file ?tmp (spool st2)"
      let ?st3 = "set_spool ?d3 st2"
      have d3: "map_of ?d3 ?final = map_of (spool st) ?final" "file_data ?d3 ?tmp = Some ?content"
        using tr(3,4) r1 ne by (simp_all add: chown_quiet_other chown_quiet_data)
      obtain r2 st4 where rn: "os_rename env ?tmp ?final ?st3 = (r2, st4)"
        by (cases "os_rename env ?tmp ?final ?st3")
      show ?thesis
      proof (cases r2)
        case (Inl e)
        with rn os_rename_fail have "st4 = ?st3" by blast
        with run gen Inr wt r1 rn Inl have "r = Inl e" "st' = ?st3"
          by (simp_all add: originate_call_def Let_def)
        with tr d3 show ?thesis
          by (intro exI [of _ "tr @ [?d3]"]) (simp add: new_seen_def)
      next
        case r2: (Inr u')
        with rn os_rename_ok [of env ?tmp ?final ?st3 u' st4] obtain n where
          n: "map_of ?d3 ?tmp = Some n"
            "st4 = set_spool (AList.update ?final n (AList.delete ?tmp ?d3)) ?st3"
          by auto
        from n(1) d3(2) have dn: "data n = ?content"
          by (simp add: file_data_def)
        from run gen Inr wt r1 rn r2 have
          res: "r = Inr [(''status'', ''ok''), (''to'', to), (''sound'', s),
                         (''call_file'', path_join SPOOL_DIR ?final)]"
            "st' = cleanup_old_sounds env st4"
          by (auto simp: originate_call_def Let_def)
        have sp: "spool st' = AList.update ?final n (AList.delete ?tmp ?d3)"
          using res n by simp
        have seen: "spool_seen st' = spool_seen st @ (tr @ [?d3]) @ [spool st']"
          using res n tr(1) by simp
        show ?thesis
          using tr(2) d3 res(1) seen sp dn s
          by (intro exI [of _ "tr @ [?d3]"])
             (simp add: new_seen_def file_data_def update_conv')
      qed
    qed
  qed
qed



lemma str_nat_numeral [simp]:
  "str_nat (numeral k) =
     (if (numeral k :: nat) < 10 then [digit_char (numeral k)]
      else str_nat (numeral k div 10) @ [digit_char (numeral k mod 10)])"
  by (rule str_nat.simps)

lemma str_nat_0 [simp]: "str_nat 0 = ''0''"
  by (simp add: str_nat.simps digit_char_def)

lemma str_nat_1 [simp]: "str_nat (Suc 0) = ''1''"
  by (simp add: str_nat.simps digit_char_def)

lemma uid_calm: "uid_of (clock_ms calm_env) = ''1700000000123''"
  by (simp add: calm_env_def uid_of_def str_int_def digit_char_def)

lemma generate_tts_ok:
  assumes "makedirs_exn env = None" "flite_exn env = None" "flite_out env = Some b"
    and "sox_exn env = None" "remove_raw_exn env = None"
  shows "fst (generate_tts env m uid st) = Inr (''akira-alert-'' @ uid)"
  using assms
  by (auto simp: generate_tts_def Let_def run_program_def os_remove_def put_file_def update_conv'
           split: option.splits)

lemma originate_call_ok:
  assumes "makedirs_exn env = None" "flite_exn env = None" "flite_out env = Some b"
    and "sox_exn env = None" "remove_raw_exn env = None"
    and "open_exn env = None" "write_exn env = None" "rename_exn env = None"
  shows "fst (originate_call cfg env to m st) =
           Inr [(''status'', ''ok''), (''to'', to),
                (''sound'', ''akira-alert-'' @ uid_of (clock_ms env)),
                (''call_file'', path_join SPOOL_DIR (call_name (uid_of (clock_ms env))))]"
proof -
  let ?uid = "uid_of (clock_ms env)"
  let ?tmp = "call_name ?uid @ ''.tmp''"
  let ?content = "call_content cfg to (''akira-alert-'' @ ?uid)"
  obtain st1 where gen: "generate_tts env m ?uid st = (Inr (''akira-alert-'' @ ?uid), st1)"
    using generate_tts_ok [OF assms(1-5), of m ?uid st]
    by (cases "generate_tts env m ?uid st") simp
  obtain st2 where wt: "write_tmp env ?tmp ?content st1 = (Inr (), st2)"
    using assms(6,7) by (simp add: write_tmp_def)
  from write_tmp_seen [OF wt] have "file_data (spool st2) ?tmp = Some ?content"
    by blast
  then have "file_data (chown_quiet env (path_join SPOOL_DIR (call_name ?uid) @ ''.tmp'') ?tmp
                          (spool st2)) ?tmp = Some ?content"
    by (simp add: chown_quiet_data)
  then obtain n where
    "map_of (chown_quiet env (path_join SPOOL_DIR (call_name ?uid) @ ''.tmp'') ?tmp (spool st2)) ?tmp
       = Some n"
    by (auto simp: file_data_def)
  with gen wt assms(8) show ?thesis
    by (simp add: originate_call_def Let_def os_rename_def)
qed


section \<open>The answers of the handler\<close>

lemma do_POST_valid:
  assumes "req_path req = ''/call''" and "RELAY_TOKEN cfg \<noteq> []"
    and "req_token req = Some (RELAY_TOKEN cfg)"
    and "req_body req = Parsed (PDict kv)"
    and "strip (py_str (py_repr env) (dict_get kv ''to'' (PStr []))) \<noteq> []"
  shows "do_POST cfg env req st =
           respond (originate_call cfg env
                      (strip (py_str (py_repr env) (dict_get kv ''to'' (PStr []))))
                      (strip (py_str (py_repr env) (dict_get kv ''message'' (PStr ''Alert from Akira''))))
                      st)"
  using assms by (simp add: do_POST_def Let_def)

lemma respond_simps:
  "fst (respond (Inr res, st')) = SendJson 200 res"
  "fst (respond (Inl e, st')) = SendJson 500 [(''status'', ''error''), (''reason'', str_exn e)]"
  "snd (respond (r, st')) = st'"
  by (simp_all add: respond_def split: sum.splits)

lemma respond_fst: "fst (respond X) = (case fst X of Inr res \<Rightarrow> SendJson 200 res
    | Inl e \<Rightarrow> SendJson 500 [(''status'', ''error''), (''reason'', str_exn e)])"
  by (cases X) (simp add: respond_def split: sum.splits)

lemma respond_snd: "snd (respond X) = snd X"
  by (cases X) (simp add: respond_def split: sum.splits)

lemma generate_tts_remove_fails:
  assumes "makedirs_exn env = None" "flite_exn env = None" "sox_exn env = None"
    and "remove_raw_exn env = Some e"
  shows "fst (generate_tts env m uid st) = Inl e"
    and "spool (snd (generate_tts env m uid st)) = spool st"
    and "spool_seen (snd (generate_tts env m uid st)) = spool_seen st"
  using assms
  by (simp_all add: generate_tts_def Let_def os_remove_def)

lemma originate_call_remove_fails:
  assumes "makedirs_exn env = None" "flite_exn env = None" "sox_exn env = None"
    and "remove_raw_exn env = Some e"
  shows "fst (originate_call cfg env to m st) = Inl e"
    and "spool (snd (originate_call cfg env to m st)) = spool st"
    and "spool_seen (snd (originate_call cfg env to m st)) = spool_seen st"
proof -
  let ?G = "generate_tts env m (uid_of (clock_ms env)) st"
  have g: "?G = (Inl e, snd ?G)"
    using generate_tts_remove_fails(1) [OF assms, of m "uid_of (clock_ms env)" st]
    by (cases ?G) simp
  have oc: "originate_call cfg env to m st = (Inl e, snd ?G)"
    unfolding originate_call_def Let_def by (subst g) simp
  show "fst (originate_call cfg env to m st) = Inl e" using oc by simp
  show "spool (snd (originate_call cfg env to m st)) = spool st"
    using oc generate_tts_remove_fails(2) [OF assms] by simp
  show "spool_seen (snd (originate_call cfg env to m st)) = spool_seen st"
    using oc generate_tts_remove_fails(3) [OF assms] by simp
qed

text \<open>
  C4, as the code has it. Removing the intermediate raw file is not best-effort:
  \<^verbatim>\<open>os.remove(raw_path)\<close> (line 57) stands outside any \<^verbatim>\<open>try\<close>. For an authenticated,
  well-formed request for which both programs succeed and the removal raises \<open>e\<close>, the
  answer is status 500 with the JSON error object carrying \<^verbatim>\<open>str(e)\<close>, and nothing is
  written to the pickup directory.
\<close>

theorem raw_removal_failure_fails_request:
  assumes "req_path req = ''/call''" and "RELAY_TOKEN cfg \<noteq> []"
    and "req_token req = Some (RELAY_TOKEN cfg)"
    and "req_body req = Parsed (PDict kv)"
    and "strip (py_str (py_repr env) (dict_get kv ''to'' (PStr []))) \<noteq> []"
    and "makedirs_exn env = None" and "flite_exn env = None" and "sox_exn env = None"
    and "remove_raw_exn env = Some e"
  shows "fst (do_POST cfg env req st) =
           SendJson 500 [(''status'', ''error''), (''reason'', str_exn e)] \<and>
         spool (snd (do_POST cfg env req st)) = spool st \<and>
         new_seen st (snd (do_POST cfg env req st)) = []"
  using do_POST_valid [OF assms(1-5)] originate_call_remove_fails [OF assms(6-9)]
  by (simp add: respond_fst respond_snd new_seen_def)

lemma good_request_valid:
  "req_path good_request = ''/call''"
  "RELAY_TOKEN example_cfg \<noteq> []"
  "req_token good_request = Some (RELAY_TOKEN example_cfg)"
  "req_body good_request =
     Parsed (PDict [(''to'', PStr ''+15551234567''), (''message'', PStr ''Disk full on NAS'')])"
  by (simp_all add: good_request_def example_cfg_def)

lemma good_request_to:
  "strip (py_str r (dict_get [(''to'', PStr ''+15551234567''), (''message'', PStr ''Disk full on NAS'')]
                      ''to'' (PStr []))) = ''+15551234567''"
  by (simp add: dict_get_def strip_def py_isspace_def)

lemma raw_stuck_env_simps:
  "makedirs_exn raw_stuck_env = None" "flite_exn raw_stuck_env = None"
  "sox_exn raw_stuck_env = None"
  "remove_raw_exn raw_stuck_env = Some (OSError ''Permission denied'')"
  by (simp_all add: raw_stuck_env_def calm_env_def)

theorem raw_removal_failure_fails_request_witness:
  "flite_exn raw_stuck_env = None \<and> sox_exn raw_stuck_env = None \<and>
   remove_raw_exn raw_stuck_env = Some (OSError ''Permission denied'') \<and>
   fst (do_POST example_cfg raw_stuck_env good_request empty_state) =
     SendJson 500 [(''status'', ''error''), (''reason'', ''Permission denied'')] \<and>
   spool (snd (do_POST example_cfg raw_stuck_env good_request empty_state)) = []"
proof -
  have to: "strip (py_str (py_repr raw_stuck_env)
              (dict_get [(''to'', PStr ''+15551234567''), (''message'', PStr ''Disk full on NAS'')]
                 ''to'' (PStr []))) \<noteq> []"
    by (simp add: good_request_to)
  from raw_removal_failure_fails_request [OF good_request_valid to raw_stuck_env_simps,
      of empty_state]
  show ?thesis
    by (simp add: raw_stuck_env_simps empty_state_def)
qed

text \<open>The claim as written fails: both programs succeed, the removal is refused, and the
  answer is 500, not 200.\<close>

theorem raw_removal_counterexample:
  "flite_exn raw_stuck_env = None \<and> sox_exn raw_stuck_env = None \<and>
   remove_raw_exn raw_stuck_env = Some (OSError ''Permission denied'') \<and>
   fst (do_POST example_cfg raw_stuck_env good_request empty_state) =
     SendJson 500 [(''status'', ''error''), (''reason'', ''Permission denied'')]"
proof -
  have to: "strip (py_str (py_repr raw_stuck_env)
              (dict_get [(''to'', PStr ''+15551234567''), (''message'', PStr ''Disk full on NAS'')]
                 ''to'' (PStr []))) \<noteq> []"
    by (simp add: good_request_to)
  from do_POST_valid [OF good_request_valid to, of empty_state]
    originate_call_remove_fails(1) [OF raw_stuck_env_simps]
  show ?thesis
    by (simp add: respond_fst raw_stuck_env_simps)
qed


lemma do_POST_raw_stuck:
  "fst (do_POST example_cfg raw_stuck_env good_request empty_state) =
     SendJson 500 [(''status'', ''error''), (''reason'', ''Permission denied'')]"
proof -
  have to: "strip (py_str (py_repr raw_stuck_env)
              (dict_get [(''to'', PStr ''+15551234567''), (''message'', PStr ''Disk full on NAS'')]
                 ''to'' (PStr []))) \<noteq> []"
    by (simp add: good_request_to)
  from do_POST_valid [OF good_request_valid to, of empty_state]
    originate_call_remove_fails(1) [OF raw_stuck_env_simps]
  show ?thesis
    by (simp add: respond_fst)
qed

theorem do_POST_token_unset_witness:
  "req_path good_request = ''/call'' \<and> RELAY_TOKEN unset_cfg = [] \<and>
   do_POST unset_cfg calm_env good_request empty_state =
     (SendError 500 (Some ''FREEPBX_RELAY_TOKEN not set''), empty_state) \<and>
   fst (do_POST example_cfg raw_stuck_env good_request empty_state) =
     SendJson 500 [(''status'', ''error''), (''reason'', ''Permission denied'')] \<and>
   is_json_error (SendJson 500 [(''status'', ''error''), (''reason'', ''Permission denied'')])"
proof -
  have p: "req_path good_request = ''/call''"
    by (simp add: good_request_def)
  have u: "RELAY_TOKEN unset_cfg = []"
    by (simp add: unset_cfg_def)
  from do_POST_token_unset [OF p, of unset_cfg calm_env empty_state]
    do_POST_token_unset [OF p, of example_cfg raw_stuck_env empty_state
      "[(''status'', ''error''), (''reason'', ''Permission denied'')]"]
    p u do_POST_raw_stuck
  show ?thesis
    by simp
qed

lemma do_POST_calm:
  "fst (do_POST example_cfg calm_env good_request empty_state) =
     SendJson 200 [(''status'', ''ok''), (''to'', ''+15551234567''),
                   (''sound'', ''akira-alert-1700000000123''),
                   (''call_file'', ''/var/spool/asterisk/outgoing/akira-1700000000123.call'')]"
proof -
  have to: "strip (py_str (py_repr calm_env)
              (dict_get [(''to'', PStr ''+15551234567''), (''message'', PStr ''Disk full on NAS'')]
                 ''to'' (PStr []))) \<noteq> []"
    by (simp add: good_request_to)
  have ok: "makedirs_exn calm_env = None" "flite_exn calm_env = None"
    "flite_out calm_env = Some ''RIFF-raw''" "sox_exn calm_env = None"
    "remove_raw_exn calm_env = None" "open_exn calm_env = None" "write_exn calm_env = None"
    "rename_exn calm_env = None"
    by (simp_all add: calm_env_def)
  from do_POST_valid [OF good_request_valid to, of empty_state]
    originate_call_ok [OF ok, of example_cfg]
  show ?thesis
    by (simp add: respond_fst good_request_to uid_calm path_join_def SPOOL_DIR_def call_name_def)
qed

text \<open>
  C5, as the code has it. When the origination of an authenticated, well-formed request
  returns, the answer is status 200 with a JSON object of four fields, in this order:
  \<^verbatim>\<open>status\<close> \<^verbatim>\<open>ok\<close>, \<^verbatim>\<open>to\<close> the stripped destination, \<^verbatim>\<open>sound\<close> the asset name
  \<^verbatim>\<open>akira-alert-<uid>\<close>, and \<^verbatim>\<open>call_file\<close> the path of the published call file.
\<close>

theorem do_POST_success_body:
  assumes "req_path req = ''/call''" and "RELAY_TOKEN cfg \<noteq> []"
    and "req_token req = Some (RELAY_TOKEN cfg)"
    and "req_body req = Parsed (PDict kv)"
    and "strip (py_str (py_repr env) (dict_get kv ''to'' (PStr []))) \<noteq> []"
    and "fst (originate_call cfg env
                (strip (py_str (py_repr env) (dict_get kv ''to'' (PStr []))))
                (strip (py_str (py_repr env) (dict_get kv ''message'' (PStr ''Alert from Akira''))))
                st) = Inr res"
  shows "fst (do_POST cfg env req st) =
           SendJson 200
             [(''status'', ''ok''),
              (''to'', strip (py_str (py_repr env) (dict_get kv ''to'' (PStr [])))),
              (''sound'', ''akira-alert-'' @ uid_of (clock_ms env)),
              (''call_file'', path_join SPOOL_DIR (call_name (uid_of (clock_ms env))))]"
proof -
  let ?to = "strip (py_str (py_repr env) (dict_get kv ''to'' (PStr [])))"
  let ?msg = "strip (py_str (py_repr env) (dict_get kv ''message'' (PStr ''Alert from Akira'')))"
  let ?X = "originate_call cfg env ?to ?msg st"
  have run: "?X = (Inr res, snd ?X)"
    using assms(6) by (cases ?X) simp
  from originate_call_trace [OF run]
  have "res = [(''status'', ''ok''), (''to'', ?to),
               (''sound'', ''akira-alert-'' @ uid_of (clock_ms env)),
               (''call_file'', path_join SPOOL_DIR (call_name (uid_of (clock_ms env))))]"
    by auto
  with do_POST_valid [OF assms(1-5), of st] assms(6) show ?thesis
    by (simp add: respond_fst)
qed

theorem do_POST_success_body_witness:
  "req_path good_request = ''/call'' \<and> RELAY_TOKEN example_cfg \<noteq> [] \<and>
   req_token good_request = Some (RELAY_TOKEN example_cfg) \<and>
   fst (do_POST example_cfg calm_env good_request empty_state) =
     SendJson 200 [(''status'', ''ok''), (''to'', ''+15551234567''),
                   (''sound'', ''akira-alert-1700000000123''),
                   (''call_file'', ''/var/spool/asterisk/outgoing/akira-1700000000123.call'')]"
proof -
  have to: "strip (py_str (py_repr calm_env)
              (dict_get [(''to'', PStr ''+15551234567''), (''message'', PStr ''Disk full on NAS'')]
                 ''to'' (PStr []))) \<noteq> []"
    by (simp add: good_request_to)
  have ok: "makedirs_exn calm_env = None" "flite_exn calm_env = None"
    "flite_out calm_env = Some ''RIFF-raw''" "sox_exn calm_env = None"
    "remove_raw_exn calm_env = None" "open_exn calm_env = None" "write_exn calm_env = None"
    "rename_exn calm_env = None"
    by (simp_all add: calm_env_def)
  from do_POST_success_body [OF good_request_valid to originate_call_ok [OF ok]]
  show ?thesis
    by (simp add: good_request_valid good_request_to uid_calm path_join_def SPOOL_DIR_def
          call_name_def)
qed

text \<open>The claim as written fails: the body of a successful answer is not the object of
  the three fields \<^verbatim>\<open>status\<close>, \<^verbatim>\<open>to\<close>, \<^verbatim>\<open>sound\<close> alone.\<close>

theorem do_POST_success_body_counterexample:
  "fst (do_POST example_cfg calm_env good_request empty_state) \<noteq>
     SendJson 200 [(''status'', ''ok''), (''to'', ''+15551234567''),
                   (''sound'', ''akira-alert-1700000000123'')]"
  by (simp add: do_POST_calm)








section \<open>Identifiers and the text of the call file\<close>

lemma digit_char_mem: "d < 10 \<Longrightarrow> digit_char d \<in> set ''0123456789''"
  unfolding digit_char_def by (rule nth_mem) simp

lemma digit_char_inj:
  assumes "a < 10" "b < 10" "digit_char a = digit_char b"
  shows "a = b"
proof -
  have "distinct ''0123456789''" by simp
  with assms show ?thesis
    by (simp add: digit_char_def nth_eq_iff_index_eq)
qed

lemma str_nat_digits: "set (str_nat n) \<subseteq> set ''0123456789''"
proof (induction n rule: str_nat.induct)
  case (1 n)
  show ?case
  proof (cases "n < 10")
    case True
    then show ?thesis
      using digit_char_mem [of n] by (subst str_nat.simps) simp
  next
    case False
    have "n mod 10 < 10" by simp
    from digit_char_mem [OF this] 1 [OF False] False show ?thesis
      by (subst str_nat.simps) simp
  qed
qed

lemma str_nat_nonempty: "str_nat n \<noteq> []"
  by (subst str_nat.simps) simp

lemma str_nat_inj: "str_nat m = str_nat n \<Longrightarrow> m = n"
proof (induction m arbitrary: n rule: str_nat.induct)
  case (1 m)
  show ?case
  proof (cases "m < 10")
    case m: True
    show ?thesis
    proof (cases "n < 10")
      case True
      with m "1.prems" show ?thesis
        by (simp add: str_nat.simps [of m] str_nat.simps [of n] digit_char_inj)
    next
      case False
      with m "1.prems" str_nat_nonempty [of "n div 10"] show ?thesis
        by (simp add: str_nat.simps [of m] str_nat.simps [of n] Cons_eq_append_conv)
    qed
  next
    case m: False
    show ?thesis
    proof (cases "n < 10")
      case True
      with m "1.prems" str_nat_nonempty [of "m div 10"] show ?thesis
        by (simp add: str_nat.simps [of m] str_nat.simps [of n] append_eq_Cons_conv)
    next
      case False
      with m "1.prems" have eq: "str_nat (m div 10) = str_nat (n div 10)"
        "digit_char (m mod 10) = digit_char (n mod 10)"
        by (simp_all add: str_nat.simps [of m] str_nat.simps [of n])
      from "1.IH" [OF m eq(1)] have d: "m div 10 = n div 10" .
      have "m mod 10 = n mod 10"
        by (rule digit_char_inj [OF _ _ eq(2)]) simp_all
      with d show ?thesis
        by (metis div_mult_mod_eq)
    qed
  qed
qed

lemma str_nat_no_minus: "CHR ''-'' \<notin> set (str_nat n)"
  using str_nat_digits [of n] by auto

lemma str_int_inj: "str_int i = str_int j \<Longrightarrow> i = j"
proof -
  assume eq: "str_int i = str_int j"
  have m1: False if "CHR ''-'' # str_nat a = str_nat b" for a b
    using str_nat_no_minus [of b] that [symmetric] by simp
  have m2: False if "str_nat b = CHR ''-'' # str_nat a" for a b
    using str_nat_no_minus [of b] that by simp
  from eq show ?thesis
    by (auto simp: str_int_def split: if_splits dest!: str_nat_inj m1 m2)
qed

lemma uid_of_eq_iff: "uid_of a = uid_of b \<longleftrightarrow> a = b"
  by (auto simp: uid_of_def dest: str_int_inj)

lemma uid_no_LF: "LF \<notin> set (uid_of t)"
  using str_nat_digits [of "nat t"] str_nat_digits [of "nat (- t)"]
  by (auto simp: uid_of_def str_int_def LF_def)

lemma originate_call_result:
  assumes "originate_call cfg env to m st = (Inr res, st')"
  shows "res = [(''status'', ''ok''), (''to'', to),
                (''sound'', ''akira-alert-'' @ uid_of (clock_ms env)),
                (''call_file'', path_join SPOOL_DIR (call_name (uid_of (clock_ms env))))]"
    and "file_data (spool st') (call_name (uid_of (clock_ms env))) =
           Some (call_content cfg to (''akira-alert-'' @ uid_of (clock_ms env)))"
  using originate_call_trace [OF assms] by auto

text \<open>
  C3, as the code has it. The identifier of an origination is the decimal text of the
  integer that \<^verbatim>\<open>int(time.time() * 1000)\<close> yields at line 70, and the asset name returned
  is \<^verbatim>\<open>akira-alert-<uid>\<close>. Two originations receive different identifiers exactly when
  that integer differs between them; when it is the same for both they receive the same
  identifier, so originations issued within one millisecond are not kept apart.
\<close>

theorem uid_per_millisecond:
  assumes "originate_call cfg1 env1 to1 m1 st1 = (Inr res1, st1')"
    and "originate_call cfg2 env2 to2 m2 st2 = (Inr res2, st2')"
  shows "map_of res1 ''sound'' = Some (''akira-alert-'' @ uid_of (clock_ms env1)) \<and>
         map_of res2 ''sound'' = Some (''akira-alert-'' @ uid_of (clock_ms env2)) \<and>
         (uid_of (clock_ms env1) = uid_of (clock_ms env2) \<longleftrightarrow>
            clock_ms env1 = clock_ms env2)"
  using originate_call_result(1) [OF assms(1)] originate_call_result(1) [OF assms(2)]
  by (simp add: uid_of_eq_iff)


lemma calm_env_ok:
  "makedirs_exn calm_env = None" "flite_exn calm_env = None"
  "flite_out calm_env = Some ''RIFF-raw''" "sox_exn calm_env = None"
  "remove_raw_exn calm_env = None" "open_exn calm_env = None" "write_exn calm_env = None"
  "rename_exn calm_env = None"
  by (simp_all add: calm_env_def)

lemma same_ms_env_ok:
  "makedirs_exn same_ms_env = None" "flite_exn same_ms_env = None"
  "flite_out same_ms_env = Some ''RIFF-raw''" "sox_exn same_ms_env = None"
  "remove_raw_exn same_ms_env = None" "open_exn same_ms_env = None"
  "write_exn same_ms_env = None" "rename_exn same_ms_env = None"
  by (simp_all add: same_ms_env_def calm_env_def)

lemma uid_same_ms: "uid_of (clock_ms same_ms_env) = ''1700000000123''"
  by (simp add: same_ms_env_def calm_env_def uid_of_def str_int_def digit_char_def)

lemma first_call_result:
  "fst first_call =
     Inr [(''status'', ''ok''), (''to'', ''+15551234567''),
          (''sound'', ''akira-alert-1700000000123''),
          (''call_file'', ''/var/spool/asterisk/outgoing/akira-1700000000123.call'')]"
  unfolding first_call_def
  by (simp add: originate_call_ok [OF calm_env_ok] uid_calm path_join_def SPOOL_DIR_def
        call_name_def)

lemma second_call_result:
  "fst second_call =
     Inr [(''status'', ''ok''), (''to'', ''+15557654321''),
          (''sound'', ''akira-alert-1700000000123''),
          (''call_file'', ''/var/spool/asterisk/outgoing/akira-1700000000123.call'')]"
  unfolding second_call_def
  by (simp add: originate_call_ok [OF same_ms_env_ok] uid_same_ms path_join_def SPOOL_DIR_def
        call_name_def)

theorem uid_per_millisecond_witness:
  "first_call =
     (Inr [(''status'', ''ok''), (''to'', ''+15551234567''),
           (''sound'', ''akira-alert-1700000000123''),
           (''call_file'', ''/var/spool/asterisk/outgoing/akira-1700000000123.call'')],
      snd first_call) \<and>
   second_call =
     (Inr [(''status'', ''ok''), (''to'', ''+15557654321''),
           (''sound'', ''akira-alert-1700000000123''),
           (''call_file'', ''/var/spool/asterisk/outgoing/akira-1700000000123.call'')],
      snd second_call) \<and>
   clock_ms calm_env = clock_ms same_ms_env"
proof -
  have r1: "originate_call example_cfg calm_env ''+15551234567'' ''first'' empty_state =
     (Inr [(''status'', ''ok''), (''to'', ''+15551234567''),
           (''sound'', ''akira-alert-1700000000123''),
           (''call_file'', ''/var/spool/asterisk/outgoing/akira-1700000000123.call'')],
      snd first_call)"
    using first_call_result by (simp add: first_call_def prod_eq_iff)
  have r2: "originate_call example_cfg same_ms_env ''+15557654321'' ''second'' (snd first_call) =
     (Inr [(''status'', ''ok''), (''to'', ''+15557654321''),
           (''sound'', ''akira-alert-1700000000123''),
           (''call_file'', ''/var/spool/asterisk/outgoing/akira-1700000000123.call'')],
      snd second_call)"
    using second_call_result by (simp add: second_call_def prod_eq_iff)
  from uid_per_millisecond [OF r1 r2] r1 r2 show ?thesis
    by (simp add: uid_calm uid_same_ms first_call_def second_call_def)
qed

text \<open>The claim as written fails: two successive originations for which line 70 computes
  the same millisecond count are given the same asset name and the same call file.\<close>

theorem uid_collision_counterexample:
  "clock_ms calm_env = clock_ms same_ms_env \<and>
   fst first_call =
     Inr [(''status'', ''ok''), (''to'', ''+15551234567''),
          (''sound'', ''akira-alert-1700000000123''),
          (''call_file'', ''/var/spool/asterisk/outgoing/akira-1700000000123.call'')] \<and>
   fst second_call =
     Inr [(''status'', ''ok''), (''to'', ''+15557654321''),
          (''sound'', ''akira-alert-1700000000123''),
          (''call_file'', ''/var/spool/asterisk/outgoing/akira-1700000000123.call'')]"
  by (simp add: first_call_result second_call_result same_ms_env_def calm_env_def)

lemma split_lines_line:
  "LF \<notin> set l \<Longrightarrow> split_lines acc (l @ LF # rest) = (acc @ l) # split_lines [] rest"
  by (induction l arbitrary: acc) auto

lemma lines_of_unlines:
  "\<forall>l\<in>set ls. LF \<notin> set l \<Longrightarrow> lines_of (unlines ls) = ls"
proof (induction ls)
  case Nil
  show ?case by (simp add: lines_of_def unlines_def)
next
  case (Cons l ls)
  then have IH: "split_lines [] (unlines ls) = ls" and l: "LF \<notin> set l"
    by (simp_all add: lines_of_def)
  have "unlines (l # ls) = l @ LF # unlines ls"
    by (simp add: unlines_def)
  with split_lines_line [OF l, of "[]" "unlines ls"] IH show ?case
    by (simp add: lines_of_def)
qed

lemma call_content_unlines: "call_content cfg to s = unlines (call_lines cfg to s)"
  by (simp add: call_content_def unlines_def call_lines_def)

text \<open>
  C7, as the code has it. After a successful origination the published call file holds
  the seven strings of the artifact format, in order (Channel with the destination at the
  trunk, Application, Data with the asset name, MaxRetries 2, RetryTime 30, WaitTime 45,
  CallerID with the configured identity), each followed by a line feed. Read line by line
  these are exactly the seven lines whenever the destination, the trunk and the caller
  identity contain no line feed.
\<close>

theorem call_file_lines:
  assumes "originate_call cfg env to message st = (Inr res, st')"
  shows "file_data (spool st') (call_name (uid_of (clock_ms env))) =
           Some (unlines (call_lines cfg to (''akira-alert-'' @ uid_of (clock_ms env)))) \<and>
         length (call_lines cfg to (''akira-alert-'' @ uid_of (clock_ms env))) = 7 \<and>
         (LF \<notin> set to \<and> LF \<notin> set (TRUNK cfg) \<and> LF \<notin> set (CALLER_ID cfg) \<longrightarrow>
            lines_of (unlines (call_lines cfg to (''akira-alert-'' @ uid_of (clock_ms env)))) =
              call_lines cfg to (''akira-alert-'' @ uid_of (clock_ms env)))"
proof (intro conjI impI)
  show "file_data (spool st') (call_name (uid_of (clock_ms env))) =
          Some (unlines (call_lines cfg to (''akira-alert-'' @ uid_of (clock_ms env))))"
    using originate_call_result(2) [OF assms] by (simp add: call_content_unlines)
  show "length (call_lines cfg to (''akira-alert-'' @ uid_of (clock_ms env))) = 7"
    by (simp add: call_lines_def)
  assume "LF \<notin> set to \<and> LF \<notin> set (TRUNK cfg) \<and> LF \<notin> set (CALLER_ID cfg)"
  then have "\<forall>l\<in>set (call_lines cfg to (''akira-alert-'' @ uid_of (clock_ms env))). LF \<notin> set l"
    using uid_no_LF [of "clock_ms env"] by (simp add: call_lines_def LF_def)
  then show "lines_of (unlines (call_lines cfg to (''akira-alert-'' @ uid_of (clock_ms env)))) =
               call_lines cfg to (''akira-alert-'' @ uid_of (clock_ms env))"
    by (rule lines_of_unlines)
qed


lemma first_call_run:
  "originate_call example_cfg calm_env ''+15551234567'' ''first'' empty_state =
     (Inr [(''status'', ''ok''), (''to'', ''+15551234567''),
           (''sound'', ''akira-alert-1700000000123''),
           (''call_file'', ''/var/spool/asterisk/outgoing/akira-1700000000123.call'')],
      snd first_call)"
  using first_call_result by (simp add: first_call_def prod_eq_iff)

theorem call_file_lines_witness:
  "LF \<notin> set ''+15551234567'' \<and> LF \<notin> set (TRUNK example_cfg) \<and>
   LF \<notin> set (CALLER_ID example_cfg) \<and>
   map_option lines_of (file_data (spool (snd first_call)) ''akira-1700000000123.call'') =
     Some [''Channel: PJSIP/+15551234567@Twilio'',
           ''Application: Playback'',
           ''Data: custom/akira-alert-1700000000123'',
           ''MaxRetries: 2'',
           ''RetryTime: 30'',
           ''WaitTime: 45'',
           ''CallerID: Akira <+15550000000>'']"
proof -
  have nl: "LF \<notin> set ''+15551234567'' \<and> LF \<notin> set (TRUNK example_cfg) \<and>
            LF \<notin> set (CALLER_ID example_cfg)"
    by (simp add: LF_def example_cfg_def)
  have cl: "call_lines example_cfg ''+15551234567'' ''akira-alert-1700000000123'' =
          [''Channel: PJSIP/+15551234567@Twilio'',
           ''Application: Playback'',
           ''Data: custom/akira-alert-1700000000123'',
           ''MaxRetries: 2'',
           ''RetryTime: 30'',
           ''WaitTime: 45'',
           ''CallerID: Akira <+15550000000>'']"
    by (simp add: call_lines_def example_cfg_def)
  from call_file_lines [OF first_call_run] nl show ?thesis
    unfolding uid_calm call_name_def cl [symmetric] by simp
qed

lemma injected_call_data:
  "file_data (spool (snd injected_call)) ''akira-1700000000123.call'' =
     Some (call_content example_cfg inject_to ''akira-alert-1700000000123'')"
proof -
  let ?X = "originate_call example_cfg calm_env inject_to ''hi'' empty_state"
  from originate_call_ok [OF calm_env_ok, of example_cfg inject_to "''hi''" empty_state]
  obtain res where "?X = (Inr res, snd ?X)"
    by (cases ?X) simp
  from originate_call_result(2) [OF this] show ?thesis
    by (simp add: injected_call_def uid_calm call_name_def)
qed

text \<open>The claim as written fails: a destination with a line feed inside gives a call
  file of eight lines.\<close>

theorem call_file_lines_counterexample:
  "map_option lines_of (file_data (spool (snd injected_call)) ''akira-1700000000123.call'') =
     Some [''Channel: PJSIP/+15551234567'',
           ''Set: x=y@Twilio'',
           ''Application: Playback'',
           ''Data: custom/akira-alert-1700000000123'',
           ''MaxRetries: 2'',
           ''RetryTime: 30'',
           ''WaitTime: 45'',
           ''CallerID: Akira <+15550000000>'']"
proof -
  let ?tail = "[''Application: Playback'', ''Data: custom/akira-alert-1700000000123'',
                ''MaxRetries: 2'', ''RetryTime: 30'', ''WaitTime: 45'',
                ''CallerID: Akira <+15550000000>'']"
  have c: "call_content example_cfg inject_to ''akira-alert-1700000000123'' =
      ''Channel: PJSIP/+15551234567'' @ LF # (''Set: x=y@Twilio'' @ LF # unlines ?tail)"
    by (simp add: call_content_def inject_to_def example_cfg_def unlines_def)
  have t: "split_lines [] (unlines ?tail) = ?tail"
    using lines_of_unlines [of ?tail] by (simp add: lines_of_def LF_def)
  have a: "split_lines [] (''Channel: PJSIP/+15551234567'' @ LF #
                             (''Set: x=y@Twilio'' @ LF # unlines ?tail)) =
           ([] @ ''Channel: PJSIP/+15551234567'') #
             split_lines [] (''Set: x=y@Twilio'' @ LF # unlines ?tail)"
    by (rule split_lines_line) (simp add: LF_def)
  have b: "split_lines [] (''Set: x=y@Twilio'' @ LF # unlines ?tail) =
           ([] @ ''Set: x=y@Twilio'') # split_lines [] (unlines ?tail)"
    by (rule split_lines_line) (simp add: LF_def)
  have "lines_of (call_content example_cfg inject_to ''akira-alert-1700000000123'') =
          ''Channel: PJSIP/+15551234567'' # ''Set: x=y@Twilio'' # ?tail"
    unfolding lines_of_def c a b t by simp
  then show ?thesis
    by (simp add: injected_call_data)
qed

section \<open>The retention sweep\<close>

lemma os_remove_Inr:
  assumes "os_remove x f d = Inr d'"
  shows "d' = AList.delete f d \<and> (\<exists>n. map_of d f = Some n \<and> regular n)"
  using assms by (auto simp: os_remove_def split: option.splits if_splits)

lemma getmtime_Inr:
  assumes "getmtime env d f = Inr m"
  shows "\<exists>n. map_of d f = Some n \<and> m = mtime n"
  using assms by (auto simp: getmtime_def split: option.splits)

lemma sweep_loop_char:
  assumes "sweep_loop env now fs d = (r, d')"
  shows "map_of d' g = map_of d g \<or>
         (map_of d' g = None \<and>
          (\<exists>n. map_of d g = Some n \<and> regular n \<and> startswith g ''akira-alert-'' \<and>
               now - mtime n > MAX_SOUND_AGE_SECS))"
  using assms
proof (induction fs arbitrary: d)
  case Nil
  then show ?case by simp
next
  case (Cons f fs)
  show ?case
  proof (cases "startswith f ''akira-alert-'' \<and> isfile d f")
    case False
    with Cons.prems have "sweep_loop env now fs d = (r, d')"
      by (auto split: if_splits)
    from Cons.IH [OF this] show ?thesis .
  next
    case True
    show ?thesis
    proof (cases "getmtime env d f")
      case (Inl e)
      with True Cons.prems show ?thesis by simp
    next
      case (Inr m)
      from getmtime_Inr [OF Inr] obtain n where n: "map_of d f = Some n" "m = mtime n"
        by blast
      show ?thesis
      proof (cases "now - m > MAX_SOUND_AGE_SECS")
        case False
        with True Inr Cons.prems have "sweep_loop env now fs d = (r, d')"
          by simp
        from Cons.IH [OF this] show ?thesis .
      next
        case old: True
        show ?thesis
        proof (cases "os_remove (sweep_remove_exn env f) f d")
          case (Inl e)
          with True Inr old Cons.prems show ?thesis by simp
        next
          case rm: (Inr d1)
          from os_remove_Inr [OF rm] n have d1: "d1 = AList.delete f d" "regular n"
            by auto
          from True Inr old rm Cons.prems have "sweep_loop env now fs d1 = (r, d')"
            by simp
          from Cons.IH [OF this] d1 n old True show ?thesis
            by (cases "g = f") (auto simp: delete_conv')
        qed
      qed
    qed
  qed
qed

lemma sweep_loop_noop:
  assumes "\<forall>f n. map_of d f = Some n \<longrightarrow>
             \<not> (regular n \<and> startswith f ''akira-alert-'' \<and> now - mtime n > MAX_SOUND_AGE_SECS)"
  shows "snd (sweep_loop env now fs d) = d"
proof (induction fs)
  case Nil
  show ?case by simp
next
  case (Cons f fs)
  show ?case
  proof (cases "startswith f ''akira-alert-'' \<and> isfile d f")
    case False
    with Cons show ?thesis by auto
  next
    case True
    show ?thesis
    proof (cases "getmtime env d f")
      case (Inl e)
      with True show ?thesis by simp
    next
      case (Inr m)
      from getmtime_Inr [OF Inr] obtain n where n: "map_of d f = Some n" "m = mtime n"
        by blast
      with True have "regular n" by (simp add: isfile_def)
      with assms n True have "\<not> now - m > MAX_SOUND_AGE_SECS" by blast
      with True Inr Cons show ?thesis by simp
    qed
  qed
qed

lemma cleanup_sounds:
  "\<exists>r. (listdir_exn env \<noteq> None \<and> sounds (cleanup_old_sounds env st) = sounds st) \<or>
       sweep_loop env (clock_sweep env) (map fst (sounds st)) (sounds st) =
         (r, sounds (cleanup_old_sounds env st))"
  by (cases "sweep_loop env (clock_sweep env) (map fst (sounds st)) (sounds st)")
     (auto simp: cleanup_old_sounds_def cleanup_try_def Let_def split: option.splits sum.splits)

lemma cleanup_char:
  "map_of (sounds (cleanup_old_sounds env st)) g = map_of (sounds st) g \<or>
   (map_of (sounds (cleanup_old_sounds env st)) g = None \<and>
    (\<exists>n. map_of (sounds st) g = Some n \<and> regular n \<and> startswith g ''akira-alert-'' \<and>
         clock_sweep env - mtime n > MAX_SOUND_AGE_SECS))"
proof -
  from cleanup_sounds [of env st] obtain r where
    "(listdir_exn env \<noteq> None \<and> sounds (cleanup_old_sounds env st) = sounds st) \<or>
     sweep_loop env (clock_sweep env) (map fst (sounds st)) (sounds st) =
       (r, sounds (cleanup_old_sounds env st))"
    by blast
  then show ?thesis
  proof
    assume "listdir_exn env \<noteq> None \<and> sounds (cleanup_old_sounds env st) = sounds st"
    then show ?thesis by simp
  next
    assume "sweep_loop env (clock_sweep env) (map fst (sounds st)) (sounds st) =
              (r, sounds (cleanup_old_sounds env st))"
    from sweep_loop_char [OF this] show ?thesis .
  qed
qed

lemma cleanup_noop:
  assumes "\<forall>f n. map_of (sounds st) f = Some n \<longrightarrow>
             \<not> (regular n \<and> startswith f ''akira-alert-'' \<and>
                clock_sweep env - mtime n > MAX_SOUND_AGE_SECS)"
  shows "cleanup_old_sounds env st = st"
proof -
  from sweep_loop_noop [OF assms, of env "map fst (sounds st)"]
  show ?thesis
    by (cases "sweep_loop env (clock_sweep env) (map fst (sounds st)) (sounds st)")
       (auto simp: cleanup_old_sounds_def cleanup_try_def Let_def split: option.splits sum.splits)
qed


lemma sweep_oracles_generate_tts:
  "generate_tts (env\<lparr>listdir_exn := l, getmtime_exn := g, sweep_remove_exn := x\<rparr>) m uid st =
   generate_tts env m uid st"
proof -
  have rp: "run_program (env\<lparr>listdir_exn := l, getmtime_exn := g, sweep_remove_exn := x\<rparr>) cmd f out s =
            run_program env cmd f out s" for cmd f out s
    by (simp add: run_program_def put_file_def Let_def split: option.splits)
  have ch: "chown_quiet (env\<lparr>listdir_exn := l, getmtime_exn := g, sweep_remove_exn := x\<rparr>) p f d =
            chown_quiet env p f d" for p f d
    by (simp add: chown_quiet_def)
  show ?thesis
    by (simp add: generate_tts_def Let_def rp ch split: option.splits sum.splits)
qed

lemma sweep_oracles_write_tmp:
  "write_tmp (env\<lparr>listdir_exn := l, getmtime_exn := g, sweep_remove_exn := x\<rparr>) f c st =
   write_tmp env f c st"
  by (simp add: write_tmp_def put_file_def Let_def split: option.splits)

lemma sweep_oracles_os_rename:
  "os_rename (env\<lparr>listdir_exn := l, getmtime_exn := g, sweep_remove_exn := x\<rparr>) a b st =
   os_rename env a b st"
  by (simp add: os_rename_def)

lemma sweep_oracles_chown:
  "chown_quiet (env\<lparr>listdir_exn := l, getmtime_exn := g, sweep_remove_exn := x\<rparr>) p f d =
   chown_quiet env p f d"
  by (simp add: chown_quiet_def)

lemma sweep_oracles_originate_call:
  "fst (originate_call cfg (env\<lparr>listdir_exn := l, getmtime_exn := g, sweep_remove_exn := x\<rparr>)
          to m st) =
   fst (originate_call cfg env to m st)"
  by (simp add: originate_call_def Let_def sweep_oracles_generate_tts sweep_oracles_write_tmp
        sweep_oracles_os_rename sweep_oracles_chown split: prod.splits sum.splits)

lemma sweep_oracles_do_POST:
  "fst (do_POST cfg (env\<lparr>listdir_exn := l, getmtime_exn := g, sweep_remove_exn := x\<rparr>) req st) =
   fst (do_POST cfg env req st)"
  by (simp add: do_POST_def Let_def respond_fst sweep_oracles_originate_call
           split: body_read.splits py_value.splits)

text \<open>
  C8. A sweep leaves every entry of the audio directory as it was, except that it may
  remove entries that are regular files, have the prefix \<^verbatim>\<open>akira-alert-\<close> and whose age
  (the sweep's clock reading minus the modification time) exceeds
  \<^verbatim>\<open>MAX_SOUND_AGE_SECS\<close>. An entry whose age is at most the limit is never removed. When
  no entry qualifies the sweep changes nothing. The pickup directory is not touched, and
  whatever the listing, the reading of a modification time or a removal raise during the
  sweep, the answer to the request is the same.
\<close>

theorem cleanup_old_sounds_safe:
  "(\<forall>f. map_of (sounds (cleanup_old_sounds env st)) f = map_of (sounds st) f \<or>
        (map_of (sounds (cleanup_old_sounds env st)) f = None \<and>
         (\<exists>n. map_of (sounds st) f = Some n \<and> regular n \<and> startswith f ''akira-alert-'' \<and>
              clock_sweep env - mtime n > MAX_SOUND_AGE_SECS))) \<and>
   (\<forall>f n. map_of (sounds st) f = Some n \<and> clock_sweep env - mtime n \<le> MAX_SOUND_AGE_SECS \<longrightarrow>
          map_of (sounds (cleanup_old_sounds env st)) f = Some n) \<and>
   ((\<forall>f n. map_of (sounds st) f = Some n \<longrightarrow>
           \<not> (regular n \<and> startswith f ''akira-alert-'' \<and>
              clock_sweep env - mtime n > MAX_SOUND_AGE_SECS)) \<longrightarrow>
    cleanup_old_sounds env st = st) \<and>
   spool (cleanup_old_sounds env st) = spool st \<and>
   fst (do_POST cfg (env\<lparr>listdir_exn := l, getmtime_exn := g, sweep_remove_exn := x\<rparr>) req st0) =
     fst (do_POST cfg env req st0)"
proof (intro conjI allI impI)
  fix f
  show "map_of (sounds (cleanup_old_sounds env st)) f = map_of (sounds st) f \<or>
        (map_of (sounds (cleanup_old_sounds env st)) f = None \<and>
         (\<exists>n. map_of (sounds st) f = Some n \<and> regular n \<and> startswith f ''akira-alert-'' \<and>
              clock_sweep env - mtime n > MAX_SOUND_AGE_SECS))"
    by (rule cleanup_char)
next
  fix f n
  assume "map_of (sounds st) f = Some n \<and> clock_sweep env - mtime n \<le> MAX_SOUND_AGE_SECS"
  with cleanup_char [of env st f]
  show "map_of (sounds (cleanup_old_sounds env st)) f = Some n"
    by auto
next
  assume "\<forall>f n. map_of (sounds st) f = Some n \<longrightarrow>
           \<not> (regular n \<and> startswith f ''akira-alert-'' \<and>
              clock_sweep env - mtime n > MAX_SOUND_AGE_SECS)"
  then show "cleanup_old_sounds env st = st"
    by (rule cleanup_noop)
next
  show "spool (cleanup_old_sounds env st) = spool st"
    by simp
next
  show "fst (do_POST cfg (env\<lparr>listdir_exn := l, getmtime_exn := g, sweep_remove_exn := x\<rparr>) req st0) =
          fst (do_POST cfg env req st0)"
    by (rule sweep_oracles_do_POST)
qed

text \<open>
  C9. A file with the prefix whose age equals \<^verbatim>\<open>MAX_SOUND_AGE_SECS\<close> exactly is kept
  by the sweep: the comparison of line 111 is strict.
\<close>

theorem sweep_boundary_retained:
  assumes "map_of (sounds st) f = Some n"
    and "startswith f ''akira-alert-''"
    and "clock_sweep env - mtime n = MAX_SOUND_AGE_SECS"
  shows "map_of (sounds (cleanup_old_sounds env st)) f = Some n"
  using cleanup_char [of env st f] assms by auto


lemma aged_sweep:
  "map fst (sounds (cleanup_old_sounds calm_env aged_state)) =
     [''akira-alert-200.wav'', ''akira-alert-300.wav'', ''hold-music.wav'']"
  by (simp add: cleanup_old_sounds_def cleanup_try_def calm_env_def aged_state_def startswith_def
        isfile_def getmtime_def os_remove_def MAX_SOUND_AGE_SECS_def Let_def)

theorem cleanup_old_sounds_safe_witness:
  "cleanup_old_sounds calm_env tidy_state = tidy_state \<and>
   map_of (sounds (cleanup_old_sounds calm_env aged_state)) ''akira-alert-300.wav'' =
     Some \<lparr>regular = True, mtime = 1700000000, owner = ''asterisk'', data = ''new''\<rparr> \<and>
   map fst (sounds (cleanup_old_sounds calm_env aged_state)) =
     [''akira-alert-200.wav'', ''akira-alert-300.wav'', ''hold-music.wav'']"
proof -
  have clean: "\<forall>f n. map_of (sounds tidy_state) f = Some n \<longrightarrow>
           \<not> (regular n \<and> startswith f ''akira-alert-'' \<and>
              clock_sweep calm_env - mtime n > MAX_SOUND_AGE_SECS)"
    by (auto simp: tidy_state_def calm_env_def MAX_SOUND_AGE_SECS_def startswith_def
             split: if_splits)
  have young: "map_of (sounds aged_state) ''akira-alert-300.wav'' =
                 Some \<lparr>regular = True, mtime = 1700000000, owner = ''asterisk'', data = ''new''\<rparr> \<and>
               clock_sweep calm_env -
                 mtime \<lparr>regular = True, mtime = 1700000000, owner = ''asterisk'', data = ''new''\<rparr>
                 \<le> MAX_SOUND_AGE_SECS"
    by (simp add: aged_state_def calm_env_def MAX_SOUND_AGE_SECS_def)
  from cleanup_old_sounds_safe [of calm_env tidy_state] clean
  have a: "cleanup_old_sounds calm_env tidy_state = tidy_state"
    by blast
  from cleanup_old_sounds_safe [of calm_env aged_state] young
  have b: "map_of (sounds (cleanup_old_sounds calm_env aged_state)) ''akira-alert-300.wav'' =
     Some \<lparr>regular = True, mtime = 1700000000, owner = ''asterisk'', data = ''new''\<rparr>"
    by blast
  from a b aged_sweep show ?thesis
    by blast
qed

theorem sweep_boundary_retained_witness:
  "startswith ''akira-alert-200.wav'' ''akira-alert-'' \<and>
   clock_sweep calm_env - 1699996401 = MAX_SOUND_AGE_SECS \<and>
   map_of (sounds (cleanup_old_sounds calm_env aged_state)) ''akira-alert-200.wav'' =
     Some \<lparr>regular = True, mtime = 1699996401, owner = ''asterisk'', data = ''edge''\<rparr>"
proof -
  have f: "map_of (sounds aged_state) ''akira-alert-200.wav'' =
             Some \<lparr>regular = True, mtime = 1699996401, owner = ''asterisk'', data = ''edge''\<rparr>"
    by (simp add: aged_state_def)
  have p: "startswith ''akira-alert-200.wav'' ''akira-alert-''"
    by (simp add: startswith_def)
  have e: "clock_sweep calm_env -
             mtime \<lparr>regular = True, mtime = 1699996401, owner = ''asterisk'', data = ''edge''\<rparr> =
           MAX_SOUND_AGE_SECS"
    by (simp add: calm_env_def MAX_SOUND_AGE_SECS_def)
  from sweep_boundary_retained [OF f p e] p e show ?thesis
    by simp
qed

section \<open>A second origination under the same identifier\<close>



section \<open>Destination and message of a request\<close>

lemma strip_nonblank:
  assumes "\<exists>c\<in>set s. \<not> py_isspace c"
  shows "strip s \<noteq> []"
proof -
  let ?t = "dropWhile py_isspace s"
  from assms have t: "?t \<noteq> []"
    by (simp add: dropWhile_eq_Nil_conv)
  then have "\<not> py_isspace (hd ?t)"
    by (rule hd_dropWhile)
  moreover from t have "hd ?t \<in> set (rev ?t)"
    by simp
  ultimately have "\<exists>c\<in>set (rev ?t). \<not> py_isspace c"
    by blast
  then have "dropWhile py_isspace (rev ?t) \<noteq> []"
    by (simp add: dropWhile_eq_Nil_conv)
  then show ?thesis
    by (simp add: strip_def)
qed













end
